theory Spec2Isabelle
  imports Complex_Main
begin

section \<open>The smart-plant monitor: sensor snapshot, alert rules, publishing loop\<close>

text \<open>
  The program is one Python module, \<^verbatim>\<open>src/main.py\<close>. A sensor reading is the tuple
  \<^verbatim>\<open>(humidity, temperature, soil_moisture, light_intensity)\<close> returned by
  \<^verbatim>\<open>read_environmental_data\<close>. The DHT driver yields \<^verbatim>\<open>None\<close> for humidity and
  temperature when the read fails, so both are optional; soil moisture and light
  intensity are always numbers. A Python float is modelled by the rational number it
  denotes (every finite float is a rational, and the comparisons of the program agree
  with the order of the rationals); infinities and NaN are outside the model.
\<close>

type_synonym reading = "rat option \<times> rat option \<times> rat \<times> rat"

subsection \<open>Module constants\<close>

definition MOISTURE_THRESHOLD :: rat where
  "MOISTURE_THRESHOLD = 300"

definition TOPIC :: string where
  "TOPIC = ''smart-plant/monitoring''"

subsection \<open>The format specification \<^verbatim>\<open>.2f\<close>\<close>

text \<open>
  \<^verbatim>\<open>f"{temperature:.2f}"\<close> renders the number in fixed notation with two digits after
  the point. Python rounds the exact value of the float correctly, a tie going to the
  even neighbour, and keeps the sign of a negative number also when the digits are all
  zero (\<^verbatim>\<open>f"{-0.001:.2f}"\<close> is \<^verbatim>\<open>-0.00\<close>). The float \<^verbatim>\<open>-0.0\<close> has no rational of
  its own and is outside the model, as are the infinities and NaN.
\<close>

definition digit :: "nat \<Rightarrow> char" where
  "digit d = ''0123456789'' ! (d mod 10)"

fun str_nat :: "nat \<Rightarrow> string" where
  "str_nat n = (if n < 10 then [digit n] else str_nat (n div 10) @ [digit (n mod 10)])"

declare str_nat.simps [simp del]

definition round_half_even :: "rat \<Rightarrow> int" where
  "round_half_even q =
     (let f = \<lfloor>q\<rfloor>; d = q - of_int f
      in if d < 1 / 2 then f
         else if 1 / 2 < d then f + 1
         else if even f then f else f + 1)"

definition hundredths :: "rat \<Rightarrow> nat" where
  "hundredths x = nat (round_half_even (\<bar>x\<bar> * 100))"

definition format_2f :: "rat \<Rightarrow> string" where
  "format_2f x =
     (let n = hundredths x
      in (if x < 0 then ''-'' else '''') @ str_nat (n div 100) @ ''.''
           @ [digit (n div 10 mod 10), digit (n mod 10)])"

subsection \<open>\<^verbatim>\<open>send_alerts\<close>\<close>

text \<open>
  \<^verbatim>\<open>print\<close> appends a line to the local output stream, which the model passes in and
  returns. The bare \<^verbatim>\<open>return\<close> of the failure branch returns \<^verbatim>\<open>None\<close>, the normal
  exit returns the list \<^verbatim>\<open>alerts\<close>: the returned value is a \<open>string list option\<close>.
\<close>

definition temperature_alert :: "rat \<Rightarrow> string" where
  "temperature_alert temperature =
     ''Temperature is '' @ (if temperature < 15 then ''too low'' else ''too high'')
       @ ''. Current temp: '' @ format_2f temperature @ '' C''"

definition send_alerts ::
  "rat option \<Rightarrow> rat option \<Rightarrow> rat \<Rightarrow> rat \<Rightarrow> string list \<Rightarrow> string list option \<times> string list"
where
  "send_alerts humidity temperature soil_moisture light_intensity out =
     (case (humidity, temperature) of
        (Some h, Some t) \<Rightarrow>
          (let alerts = [];
               alerts = (if soil_moisture > MOISTURE_THRESHOLD
                         then alerts @ [''Soil is too dry. Consider watering the plant.'']
                         else alerts);
               alerts = (if t < 15 \<or> t > 30
                         then alerts @ [temperature_alert t]
                         else alerts);
               alerts = (if light_intensity < 0.2
                         then alerts @ [''Plant needs more light.'']
                         else alerts)
           in (Some alerts, out))
      | _ \<Rightarrow> (None, out @ [''Failed to retrieve data from DHT sensor'']))"

subsection \<open>The body of the polling loop in \<^verbatim>\<open>main\<close>\<close>

text \<open>
  The MQTT client is an external library. Its \<^verbatim>\<open>publish(topic, payload)\<close> is a
  parameter of the model: it takes the client's state and returns a result code
  (\<open>True\<close> when the message was handed to the network, \<open>False\<close> when it was not) with
  the client's new state. \<^verbatim>\<open>main\<close> discards the result code. An exception raised
  inside the loop is caught by the handler around it and ends the loop; the iterations
  modelled here are the ones that run to their end.
\<close>

type_synonym 'c publish = "string \<Rightarrow> string \<Rightarrow> 'c \<Rightarrow> bool \<times> 'c"

record 'c world =
  stdout :: "string list"
  client :: 'c

fun for_alerts :: "'c publish \<Rightarrow> string list \<Rightarrow> 'c world \<Rightarrow> 'c world" where
  "for_alerts publish [] w = w"
| "for_alerts publish (alert # rest) w =
     for_alerts publish rest
       (w\<lparr>stdout := stdout w @ [alert], client := snd (publish TOPIC alert (client w))\<rparr>)"

definition loop_body :: "'c publish \<Rightarrow> reading \<Rightarrow> 'c world \<Rightarrow> 'c world" where
  "loop_body publish r w =
     (case r of (humidity, temperature, soil_moisture, light_intensity) \<Rightarrow>
        (case send_alerts humidity temperature soil_moisture light_intensity (stdout w) of
           (alerts, out) \<Rightarrow>
             (let w1 = w\<lparr>stdout := out\<rparr>
              in case alerts of
                   None \<Rightarrow> w1
                 | Some as \<Rightarrow> if as \<noteq> [] then for_alerts publish as w1 else w1)))"


subsection \<open>Reading alerts back\<close>

text \<open>
  The program has no parser for its own messages. To say which rule an alert belongs to
  and which number a rendered temperature denotes, the statements below use the prefix
  that only the temperature message starts with, and the usual value of a decimal
  numeral: an optional minus sign, the digits before the point, the digits after it.
\<close>

definition is_temperature_alert :: "string \<Rightarrow> bool" where
  "is_temperature_alert a = (take 15 a = ''Temperature is '')"

definition digit_value :: "char \<Rightarrow> nat" where
  "digit_value c = of_char c - 48"

definition nat_of_digits :: "string \<Rightarrow> nat" where
  "nat_of_digits s = foldl (\<lambda>a c. 10 * a + digit_value c) 0 s"

definition fraction_digits :: "string \<Rightarrow> string" where
  "fraction_digits s = drop 1 (dropWhile (\<lambda>c. c \<noteq> CHR ''.'') s)"

definition decimal_value :: "string \<Rightarrow> rat" where
  "decimal_value s =
     (let neg = (take 1 s = ''-'');
          body = (if neg then drop 1 s else s);
          ip = takeWhile (\<lambda>c. c \<noteq> CHR ''.'') body;
          fp = fraction_digits body;
          v = of_nat (nat_of_digits ip) + of_nat (nat_of_digits fp) / 10 ^ length fp
      in if neg then - v else v)"

section \<open>Facts about the rendering and the reading of decimals\<close>

lemma digit_cases: "d < 10 \<Longrightarrow> d = 0 \<or> d = 1 \<or> d = 2 \<or> d = 3 \<or> d = 4 \<or> d = 5 \<or> d = 6 \<or> d = 7 \<or> d = 8 \<or> d = (9::nat)"
  by arith

lemma digit_value_digit: "d < 10 \<Longrightarrow> digit_value (digit d) = d"
  using digit_cases [of d] by (auto simp: digit_def digit_value_def)

lemma digit_not_point: "digit d \<noteq> CHR ''.''"
  using digit_cases [of "d mod 10"] by (auto simp: digit_def)

lemma digit_not_minus: "digit d \<noteq> CHR ''-''"
  using digit_cases [of "d mod 10"] by (auto simp: digit_def)

lemma nat_of_digits_snoc: "nat_of_digits (s @ [c]) = 10 * nat_of_digits s + digit_value c"
  by (simp add: nat_of_digits_def)

lemma str_nat_no_point: "CHR ''.'' \<notin> set (str_nat n)"
proof (induction n rule: str_nat.induct)
  case (1 n)
  show ?case
  proof (cases "n < 10")
    case True
    then show ?thesis using digit_not_point [of n] by (subst str_nat.simps) simp
  next
    case False
    with 1 show ?thesis
      using digit_not_point [of "n mod 10"] by (subst str_nat.simps) simp
  qed
qed

lemma nat_of_digits_str_nat: "nat_of_digits (str_nat n) = n"
proof (induction n rule: str_nat.induct)
  case (1 n)
  show ?case
  proof (cases "n < 10")
    case True
    then show ?thesis by (subst str_nat.simps) (simp add: nat_of_digits_def digit_value_digit)
  next
    case False
    with 1 have "nat_of_digits (str_nat (n div 10)) = n div 10" by simp
    with False show ?thesis
      by (subst str_nat.simps) (simp add: nat_of_digits_snoc digit_value_digit)
  qed
qed

lemma str_nat_nonempty: "str_nat n \<noteq> []"
  by (subst str_nat.simps) simp

lemma takeWhile_until: "c \<notin> set xs \<Longrightarrow> takeWhile (\<lambda>x. x \<noteq> c) (xs @ c # ys) = xs"
  by (induction xs) auto

lemma dropWhile_until: "c \<notin> set xs \<Longrightarrow> dropWhile (\<lambda>x. x \<noteq> c) (xs @ c # ys) = c # ys"
  by (induction xs) auto

lemma str_nat_hd: "take 1 (str_nat n) \<noteq> ''-''"
proof (induction n rule: str_nat.induct)
  case (1 n)
  show ?case
  proof (cases "n < 10")
    case True
    then show ?thesis using digit_not_minus [of n] by (subst str_nat.simps) simp
  next
    case False
    with 1 have ih: "take 1 (str_nat (n div 10)) \<noteq> ''-''" by simp
    have "str_nat (n div 10) \<noteq> []" by (rule str_nat_nonempty)
    with ih False show ?thesis
      by (subst str_nat.simps) (simp add: take_Suc_conv_app_nth)
  qed
qed

lemma round_half_even_near: "\<bar>of_int (round_half_even q) - q\<bar> \<le> 1 / 2"
proof -
  have "of_int \<lfloor>q\<rfloor> \<le> q" and "q < of_int \<lfloor>q\<rfloor> + 1"
    by linarith+
  then show ?thesis
    by (auto simp: round_half_even_def Let_def abs_le_iff)
qed

lemma round_half_even_nonneg: "0 \<le> q \<Longrightarrow> 0 \<le> round_half_even q"
proof -
  assume "0 \<le> q"
  then have "0 \<le> \<lfloor>q\<rfloor>" by simp
  then show ?thesis
    by (auto simp: round_half_even_def Let_def)
qed

lemma unsigned_body:
  "takeWhile (\<lambda>c. c \<noteq> CHR ''.'') (str_nat m @ [CHR ''.'', a, b]) = str_nat m"
  "fraction_digits (str_nat m @ [CHR ''.'', a, b]) = [a, b]"
  by (simp_all add: fraction_digits_def takeWhile_until dropWhile_until str_nat_no_point)

lemma unsigned_no_sign: "take 1 (str_nat m @ ys) \<noteq> ''-''"
  using str_nat_hd [of m] str_nat_nonempty [of m] by (cases "str_nat m") simp_all

lemma two_digits: "nat_of_digits [digit (n div 10 mod 10), digit (n mod 10)] = n mod 100"
proof -
  have "nat_of_digits [digit (n div 10 mod 10), digit (n mod 10)]
          = 10 * digit_value (digit (n div 10 mod 10)) + digit_value (digit (n mod 10))"
    by (simp add: nat_of_digits_def)
  also have "\<dots> = 10 * (n div 10 mod 10) + n mod 10"
    by (simp add: digit_value_digit)
  also have "\<dots> = n mod 100"
    using mod_mult2_eq [of n 10 10] by simp
  finally show ?thesis .
qed

lemma decimal_value_unsigned:
  "decimal_value (str_nat (n div 100) @ [CHR ''.'', digit (n div 10 mod 10), digit (n mod 10)])
     = of_nat n / 100"
proof -
  let ?s = "str_nat (n div 100) @ [CHR ''.'', digit (n div 10 mod 10), digit (n mod 10)]"
  have "decimal_value ?s = of_nat (n div 100) + of_nat (n mod 100) / 10 ^ 2"
    unfolding decimal_value_def Let_def
    by (simp only: unsigned_no_sign if_False unsigned_body nat_of_digits_str_nat two_digits)
       simp
  also have "\<dots> = (of_nat (100 * (n div 100)) + of_nat (n mod 100)) / 100"
    by simp
  also have "\<dots> = of_nat (100 * (n div 100) + n mod 100) / 100"
    by (simp only: of_nat_add)
  also have "\<dots> = of_nat n / 100"
    by simp
  finally show ?thesis .
qed

lemma format_2f_nonneg:
  "\<not> x < 0 \<Longrightarrow> format_2f x = str_nat (hundredths x div 100)
      @ [CHR ''.'', digit (hundredths x div 10 mod 10), digit (hundredths x mod 10)]"
  by (simp add: format_2f_def Let_def)

lemma format_2f_neg:
  "x < 0 \<Longrightarrow> format_2f x = CHR ''-'' # str_nat (hundredths x div 100)
      @ [CHR ''.'', digit (hundredths x div 10 mod 10), digit (hundredths x mod 10)]"
  by (simp add: format_2f_def Let_def)

lemma decimal_value_minus:
  "take 1 s \<noteq> ''-'' \<Longrightarrow> decimal_value (CHR ''-'' # s) = - decimal_value s"
  by (simp add: decimal_value_def Let_def)

lemma decimal_value_format_2f:
  "decimal_value (format_2f x) = (if x < 0 then - (of_nat (hundredths x) / 100)
                                  else of_nat (hundredths x) / 100)"
proof (cases "x < 0")
  case False
  show ?thesis
    by (simp only: format_2f_nonneg [OF False] decimal_value_unsigned False if_False)
next
  case True
  show ?thesis
    by (simp only: format_2f_neg [OF True] decimal_value_minus [OF unsigned_no_sign]
          decimal_value_unsigned True if_True)
qed

lemma hundredths_near: "\<bar>of_nat (hundredths x) / 100 - \<bar>x\<bar>\<bar> \<le> (1 / 200 :: rat)"
proof -
  have nn: "0 \<le> round_half_even (\<bar>x\<bar> * 100)"
    by (rule round_half_even_nonneg) simp
  have "\<bar>of_int (round_half_even (\<bar>x\<bar> * 100)) - \<bar>x\<bar> * 100\<bar> \<le> 1 / 2"
    by (rule round_half_even_near)
  with nn have "\<bar>of_nat (hundredths x) - \<bar>x\<bar> * 100\<bar> \<le> (1 / 2 :: rat)"
    by (simp add: hundredths_def)
  then show ?thesis
    by linarith
qed

lemma format_2f_near: "\<bar>decimal_value (format_2f x) - x\<bar> \<le> 1 / 200"
proof (cases "x < 0")
  case True
  then have "decimal_value (format_2f x) = - (of_nat (hundredths x) / 100)"
    by (simp add: decimal_value_format_2f)
  with hundredths_near [of x] True show ?thesis by linarith
next
  case False
  then have "decimal_value (format_2f x) = of_nat (hundredths x) / 100"
    by (simp add: decimal_value_format_2f)
  with hundredths_near [of x] False show ?thesis by linarith
qed

lemma fraction_digits_format_2f: "length (fraction_digits (format_2f x)) = 2"
proof (cases "x < 0")
  case True
  have "fraction_digits (CHR ''-'' # s) = fraction_digits s" for s
    by (simp add: fraction_digits_def)
  then show ?thesis
    by (simp only: format_2f_neg [OF True] unsigned_body) simp
next
  case False
  show ?thesis
    by (simp only: format_2f_nonneg [OF False] unsigned_body) simp
qed

section \<open>Facts about \<^verbatim>\<open>send_alerts\<close> and the loop body\<close>

lemma send_alerts_present:
  "send_alerts (Some h) (Some t) s l out =
     (Some ((if 300 < s then [''Soil is too dry. Consider watering the plant.''] else [])
            @ (if t < 15 \<or> 30 < t then [temperature_alert t] else [])
            @ (if l < 0.2 then [''Plant needs more light.''] else [])), out)"
  by (simp add: send_alerts_def MOISTURE_THRESHOLD_def)

lemma send_alerts_absent:
  "humidity = None \<or> temperature = None \<Longrightarrow>
     send_alerts humidity temperature s l out =
       (None, out @ [''Failed to retrieve data from DHT sensor''])"
  by (auto simp: send_alerts_def split: option.splits)

lemma temperature_alert_is [simp]: "is_temperature_alert (temperature_alert t)"
  by (simp add: is_temperature_alert_def temperature_alert_def)

lemma other_alerts_not_temperature [simp]:
  "\<not> is_temperature_alert ''Soil is too dry. Consider watering the plant.''"
  "\<not> is_temperature_alert ''Plant needs more light.''"
  by (simp_all add: is_temperature_alert_def)

lemma temperature_alert_distinct [simp]:
  "temperature_alert t \<noteq> ''Soil is too dry. Consider watering the plant.''"
  "temperature_alert t \<noteq> ''Plant needs more light.''"
  "''Soil is too dry. Consider watering the plant.'' \<noteq> temperature_alert t"
  "''Plant needs more light.'' \<noteq> temperature_alert t"
  by (simp_all add: temperature_alert_def)






lemma format_2f_10: "format_2f 10 = ''10.00''"
  by (simp add: format_2f_def hundredths_def round_half_even_def digit_def str_nat.simps)

lemma hundredths_high: "hundredths 35.678 = 3568"
proof -
  have "\<lfloor>17839 / 5 :: rat\<rfloor> = 3567"
    by (rule floor_unique) simp_all
  then show ?thesis
    by (simp add: hundredths_def round_half_even_def Let_def)
qed

lemma format_2f_high: "format_2f 35.678 = ''35.68''"
  unfolding format_2f_def Let_def hundredths_high
  by (simp add: str_nat.simps digit_def)

section \<open>The claims\<close>

text \<open>
  Claim C1, as the code has it: for every snapshot in which humidity or temperature is
  absent, \<^verbatim>\<open>send_alerts\<close> returns \<^verbatim>\<open>None\<close>, so no list of alerts and no threshold
  alert, and prints exactly one diagnostic line,
  \<^verbatim>\<open>Failed to retrieve data from DHT sensor\<close>, to the local output stream, whatever
  the soil-moisture and light-intensity values are.
\<close>

theorem absent_reading_prints_diagnostic:
  "humidity = None \<or> temperature = None \<Longrightarrow>
     send_alerts humidity temperature soil_moisture light_intensity out =
       (None, out @ [''Failed to retrieve data from DHT sensor''])"
  by (rule send_alerts_absent)

theorem absent_reading_prints_diagnostic_witness:
  "((None :: rat option) = None \<or> (None :: rat option) = None)
   \<and> send_alerts None None 999 0.01 [] = (None, [''Failed to retrieve data from DHT sensor''])"
  using absent_reading_prints_diagnostic [of None None 999 "0.01" "[]"] by simp

text \<open>
  The claim as stated, that one diagnostic alert is returned, fails on scenario C of the
  specification: the returned value is \<^verbatim>\<open>None\<close>, not a list holding the diagnostic.
\<close>

theorem absent_reading_returns_no_list:
  "fst (send_alerts None None 999 0.01 []) = None
   \<and> fst (send_alerts None None 999 0.01 []) \<noteq> Some [''Failed to retrieve data from DHT sensor'']"
  by (simp add: send_alerts_def)

text \<open>
  Claim C2: with humidity and temperature present, the returned list holds the
  soil-moisture alert exactly once when \<open>soil_moisture > 300\<close> and not at all when
  \<open>soil_moisture \<le> 300\<close>.
\<close>

theorem moisture_alert_count:
  "\<exists>alerts. fst (send_alerts (Some h) (Some t) soil_moisture light_intensity out) = Some alerts
     \<and> count_list alerts ''Soil is too dry. Consider watering the plant.''
         = (if 300 < soil_moisture then 1 else 0)"
  by (simp add: send_alerts_present)

theorem moisture_alert_count_witness:
  "(\<exists>alerts. fst (send_alerts (Some 40) (Some 22) 400 0.1 []) = Some alerts
      \<and> count_list alerts ''Soil is too dry. Consider watering the plant.'' = 1)
   \<and> (\<exists>alerts. fst (send_alerts (Some 45) (Some 22) 100 0.5 []) = Some alerts
      \<and> count_list alerts ''Soil is too dry. Consider watering the plant.'' = 0)"
  using moisture_alert_count [of 40 22 400 "0.1" "[]"] moisture_alert_count [of 45 22 100 "0.5" "[]"]
  by simp

text \<open>
  Claim C3: with humidity and temperature present and the temperature below 15 or above
  30, the returned list holds exactly one temperature alert. It says \<^verbatim>\<open>too low\<close> below
  15 and \<^verbatim>\<open>too high\<close> above 30, and carries the temperature rendered with two digits
  after the point, a decimal that differs from the measured value by at most 0.005.
\<close>

theorem temperature_alert_out_of_range:
  "t < 15 \<or> 30 < t \<Longrightarrow>
   \<exists>alerts. fst (send_alerts (Some h) (Some t) soil_moisture light_intensity out) = Some alerts
     \<and> (t < 15 \<longrightarrow> filter is_temperature_alert alerts
           = [''Temperature is too low. Current temp: '' @ format_2f t @ '' C''])
     \<and> (30 < t \<longrightarrow> filter is_temperature_alert alerts
           = [''Temperature is too high. Current temp: '' @ format_2f t @ '' C''])
     \<and> length (fraction_digits (format_2f t)) = 2
     \<and> \<bar>decimal_value (format_2f t) - t\<bar> \<le> 1 / 200"
proof -
  assume range: "t < 15 \<or> 30 < t"
  let ?alerts = "(if 300 < soil_moisture then [''Soil is too dry. Consider watering the plant.''] else [])
            @ [temperature_alert t]
            @ (if light_intensity < 0.2 then [''Plant needs more light.''] else [])"
  have ret: "fst (send_alerts (Some h) (Some t) soil_moisture light_intensity out) = Some ?alerts"
    using range by (simp add: send_alerts_present)
  have one: "filter is_temperature_alert ?alerts = [temperature_alert t]"
    by simp
  have low: "t < 15 \<Longrightarrow> temperature_alert t
      = ''Temperature is too low. Current temp: '' @ format_2f t @ '' C''"
    by (simp add: temperature_alert_def)
  have high: "30 < t \<Longrightarrow> temperature_alert t
      = ''Temperature is too high. Current temp: '' @ format_2f t @ '' C''"
    by (simp add: temperature_alert_def)
  show ?thesis
  proof (rule exI [of _ ?alerts], intro conjI impI)
    show "fst (send_alerts (Some h) (Some t) soil_moisture light_intensity out) = Some ?alerts"
      by (rule ret)
    show "filter is_temperature_alert ?alerts
        = [''Temperature is too low. Current temp: '' @ format_2f t @ '' C'']" if "t < 15"
      using one low [OF that] by simp
    show "filter is_temperature_alert ?alerts
        = [''Temperature is too high. Current temp: '' @ format_2f t @ '' C'']" if "30 < t"
      using one high [OF that] by simp
    show "length (fraction_digits (format_2f t)) = 2"
      by (rule fraction_digits_format_2f)
    show "\<bar>decimal_value (format_2f t) - t\<bar> \<le> 1 / 200"
      by (rule format_2f_near)
  qed
qed

theorem temperature_alert_out_of_range_witness:
  "((10 :: rat) < 15 \<or> (30 :: rat) < 10)
   \<and> (\<exists>alerts. fst (send_alerts (Some 50) (Some 10) 200 0.5 []) = Some alerts
        \<and> filter is_temperature_alert alerts = [''Temperature is too low. Current temp: 10.00 C''])
   \<and> ((35.678 :: rat) < 15 \<or> (30 :: rat) < 35.678)
   \<and> (\<exists>alerts. fst (send_alerts (Some 50) (Some 35.678) 200 0.5 []) = Some alerts
        \<and> filter is_temperature_alert alerts = [''Temperature is too high. Current temp: 35.68 C''])"
proof -
  have low: "\<exists>alerts. fst (send_alerts (Some 50) (Some 10) 200 0.5 []) = Some alerts
        \<and> filter is_temperature_alert alerts = [''Temperature is too low. Current temp: 10.00 C'']"
    using temperature_alert_out_of_range [of 10 50 200 "0.5" "[]"]
    by (simp add: format_2f_10) blast
  have high: "\<exists>alerts. fst (send_alerts (Some 50) (Some 35.678) 200 0.5 []) = Some alerts
        \<and> filter is_temperature_alert alerts = [''Temperature is too high. Current temp: 35.68 C'']"
    using temperature_alert_out_of_range [of "35.678" 50 200 "0.5" "[]"]
    by (simp only: format_2f_high) (simp, blast)
  from low high show ?thesis by simp
qed

text \<open>
  Claim C4: with humidity and temperature present, the returned list holds the light
  alert exactly once when \<open>light_intensity < 0.2\<close> and not at all when
  \<open>light_intensity \<ge> 0.2\<close>.
\<close>

theorem light_alert_count:
  "\<exists>alerts. fst (send_alerts (Some h) (Some t) soil_moisture light_intensity out) = Some alerts
     \<and> count_list alerts ''Plant needs more light.''
         = (if light_intensity < 0.2 then 1 else 0)"
  by (simp add: send_alerts_present)

theorem light_alert_count_witness:
  "(\<exists>alerts. fst (send_alerts (Some 40) (Some 22) 400 0.1 []) = Some alerts
      \<and> count_list alerts ''Plant needs more light.'' = 1)
   \<and> (\<exists>alerts. fst (send_alerts (Some 45) (Some 22) 100 0.5 []) = Some alerts
      \<and> count_list alerts ''Plant needs more light.'' = 0)"
  using light_alert_count [of 40 22 400 "0.1" "[]"] light_alert_count [of 45 22 100 "0.5" "[]"]
  by simp

text \<open>
  Claim C5: with humidity and temperature present, \<open>soil_moisture \<le> 300\<close>, the
  temperature within \<open>[15, 30]\<close> and \<open>light_intensity \<ge> 0.2\<close>, the returned list is
  empty and nothing is printed.
\<close>

theorem within_bounds_no_alerts:
  "soil_moisture \<le> 300 \<Longrightarrow> 15 \<le> t \<Longrightarrow> t \<le> 30 \<Longrightarrow> 0.2 \<le> light_intensity \<Longrightarrow>
     send_alerts (Some h) (Some t) soil_moisture light_intensity out = (Some [], out)"
  by (simp add: send_alerts_present)

theorem within_bounds_no_alerts_witness:
  "(100 :: rat) \<le> 300 \<and> (15 :: rat) \<le> 22 \<and> (22 :: rat) \<le> 30 \<and> (0.2 :: rat) \<le> 0.5
   \<and> send_alerts (Some 45) (Some 22) 100 0.5 [] = (Some [], [])"
  using within_bounds_no_alerts [of 100 22 "0.5" 45 "[]"] by simp

text \<open>
  Claim C6: with humidity and temperature present, each of the three rules contributes
  its alert or nothing according to its own comparison alone, and the contributions are
  concatenated in the order moisture, temperature, light. In particular, when
  \<open>soil_moisture > 300\<close> and \<open>light_intensity < 0.2\<close> the list starts with the soil
  alert and ends with the light alert, with only a temperature alert possibly between
  them.
\<close>

theorem rules_independent_in_order:
  "send_alerts (Some h) (Some t) soil_moisture light_intensity out =
     (Some ((if 300 < soil_moisture then [''Soil is too dry. Consider watering the plant.''] else [])
            @ (if t < 15 \<or> 30 < t then [temperature_alert t] else [])
            @ (if light_intensity < 0.2 then [''Plant needs more light.''] else [])), out)
   \<and> (300 < soil_moisture \<and> light_intensity < 0.2 \<longrightarrow>
        fst (send_alerts (Some h) (Some t) soil_moisture light_intensity out) =
          Some (''Soil is too dry. Consider watering the plant.''
                # (if t < 15 \<or> 30 < t then [temperature_alert t] else [])
                @ [''Plant needs more light.'']))"
  by (simp add: send_alerts_present)

theorem rules_independent_in_order_witness:
  "((300 :: rat) < 400 \<and> (0.1 :: rat) < 0.2)
   \<and> send_alerts (Some 40) (Some 22) 400 0.1 [] =
       (Some [''Soil is too dry. Consider watering the plant.'', ''Plant needs more light.''], [])"
  using rules_independent_in_order [of 40 22 400 "0.1" "[]"] by simp





text \<open>
  Claim C9: when humidity or temperature is \<^verbatim>\<open>None\<close>, \<^verbatim>\<open>send_alerts\<close> returns
  \<^verbatim>\<open>None\<close>; the iteration then only appends the failure message to the output stream
  and leaves the client untouched, for every behaviour of \<^verbatim>\<open>publish\<close>: nothing is
  published.
\<close>

theorem absent_reading_never_published:
  "humidity = None \<or> temperature = None \<Longrightarrow>
     fst (send_alerts humidity temperature soil_moisture light_intensity (stdout w)) = None
     \<and> loop_body publish (humidity, temperature, soil_moisture, light_intensity) w
         = w\<lparr>stdout := stdout w @ [''Failed to retrieve data from DHT sensor'']\<rparr>
     \<and> client (loop_body publish (humidity, temperature, soil_moisture, light_intensity) w)
         = client w"
  by (simp add: loop_body_def send_alerts_absent)

theorem absent_reading_never_published_witness:
  "((None :: rat option) = None \<or> Some (22 :: rat) = None)
   \<and> loop_body (\<lambda>topic payload log. (True, log @ [(topic, payload)])) (None, Some 22, 999, 0.01)
        \<lparr>stdout = [], client = []\<rparr>
      = \<lparr>stdout = [''Failed to retrieve data from DHT sensor''], client = []\<rparr>"
  using absent_reading_never_published [of None "Some 22"  999 "0.01" "\<lparr>stdout = [], client = []\<rparr>"
          "\<lambda>topic payload log. (True, log @ [(topic, payload)])"]
  by simp

text \<open>
  Claim C10: the comparisons are strict. With humidity and temperature present, a soil
  moisture of exactly 300 gives no soil alert, a temperature of exactly 15 or exactly 30
  gives no temperature alert, and a light intensity of exactly 0.2 gives no light alert.
\<close>

theorem boundary_values_no_alert:
  "\<exists>alerts. fst (send_alerts (Some h) (Some t) soil_moisture light_intensity out) = Some alerts
     \<and> (soil_moisture = 300 \<longrightarrow> ''Soil is too dry. Consider watering the plant.'' \<notin> set alerts)
     \<and> (t = 15 \<or> t = 30 \<longrightarrow> filter is_temperature_alert alerts = [])
     \<and> (light_intensity = 0.2 \<longrightarrow> ''Plant needs more light.'' \<notin> set alerts)"
  by (auto simp: send_alerts_present)

theorem boundary_values_no_alert_witness:
  "(300 :: rat) = 300 \<and> ((30 :: rat) = 15 \<or> (30 :: rat) = 30) \<and> (0.2 :: rat) = 0.2
   \<and> ((15 :: rat) = 15 \<or> (15 :: rat) = 30)
   \<and> fst (send_alerts (Some 45) (Some 30) 300 0.2 []) = Some []
   \<and> fst (send_alerts (Some 45) (Some 15) 300 0.2 []) = Some []"
  using boundary_values_no_alert [of 45 30 300 "0.2" "[]"]
        boundary_values_no_alert [of 45 15 300 "0.2" "[]"]
  by (simp add: send_alerts_present)

end
